theory Spec2Isabelle
  imports Complex_Main "HOL-Library.Sublist"
begin

section \<open>Python values of the parsed provider response\<close>

text \<open>
  \<open>response.json()\<close> yields Python values: \<open>None\<close>, booleans, numbers, strings, lists
  and dictionaries. Numbers (Python \<open>int\<close> and \<open>float\<close>) are modelled as exact
  rationals: rounding of floats, NaN and the infinities are outside the model. A
  dictionary is an association list read with \<open>map_of\<close> (a parsed dictionary holds every
  key once).
\<close>

datatype json =
    JNull
  | JBool bool
  | JNum rat
  | JStr string
  | JList "json list"
  | JDict "(string \<times> json) list"

text \<open>
  The exceptions the program can meet. \<open>KeyboardInterrupt\<close> derives from
  \<open>BaseException\<close> only; all the others derive from \<open>Exception\<close>, and the first four
  from \<open>requests.exceptions.RequestException\<close>.
\<close>

datatype py_error =
    ConnectionError
  | Timeout
  | HTTPError
  | JSONDecodeError
  | KeyError
  | TypeError
  | AttributeError
  | KeyboardInterrupt

fun is_request_exception :: "py_error \<Rightarrow> bool" where
  "is_request_exception ConnectionError = True"
| "is_request_exception Timeout = True"
| "is_request_exception HTTPError = True"
| "is_request_exception JSONDecodeError = True"
| "is_request_exception KeyError = False"
| "is_request_exception TypeError = False"
| "is_request_exception AttributeError = False"
| "is_request_exception KeyboardInterrupt = False"

fun is_exception :: "py_error \<Rightarrow> bool" where
  "is_exception KeyboardInterrupt = False"
| "is_exception ConnectionError = True"
| "is_exception Timeout = True"
| "is_exception HTTPError = True"
| "is_exception JSONDecodeError = True"
| "is_exception KeyError = True"
| "is_exception TypeError = True"
| "is_exception AttributeError = True"

text \<open>Truth value of a Python value (\<open>not data\<close>).\<close>

fun truthy :: "json \<Rightarrow> bool" where
  "truthy JNull = False"
| "truthy (JBool b) = b"
| "truthy (JNum r) = (r \<noteq> 0)"
| "truthy (JStr s) = (s \<noteq> [])"
| "truthy (JList xs) = (xs \<noteq> [])"
| "truthy (JDict kvs) = (kvs \<noteq> [])"

text \<open>\<open>key in container\<close> for a string key: dictionary key, list element, substring.\<close>

fun contains :: "json \<Rightarrow> string \<Rightarrow> py_error + bool" where
  "contains (JDict kvs) k = Inr (k \<in> set (map fst kvs))"
| "contains (JList xs) k = Inr (JStr k \<in> set xs)"
| "contains (JStr s) k = Inr (sublist k s)"
| "contains JNull k = Inl TypeError"
| "contains (JBool b) k = Inl TypeError"
| "contains (JNum r) k = Inl TypeError"

text \<open>\<open>container[key]\<close> for a string key: only a dictionary accepts it.\<close>

fun subscript :: "json \<Rightarrow> string \<Rightarrow> py_error + json" where
  "subscript (JDict kvs) k = (case map_of kvs k of None \<Rightarrow> Inl KeyError | Some v \<Rightarrow> Inr v)"
| "subscript (JList xs) k = Inl TypeError"
| "subscript (JStr s) k = Inl TypeError"
| "subscript JNull k = Inl TypeError"
| "subscript (JBool b) k = Inl TypeError"
| "subscript (JNum r) k = Inl TypeError"

text \<open>\<open>obj.get(key, default)\<close>: only a dictionary has the method.\<close>

fun get_default :: "json \<Rightarrow> string \<Rightarrow> json \<Rightarrow> py_error + json" where
  "get_default (JDict kvs) k d = (case map_of kvs k of None \<Rightarrow> Inr d | Some v \<Rightarrow> Inr v)"
| "get_default (JList xs) k d = Inl AttributeError"
| "get_default (JStr s) k d = Inl AttributeError"
| "get_default JNull k d = Inl AttributeError"
| "get_default (JBool b) k d = Inl AttributeError"
| "get_default (JNum r) k d = Inl AttributeError"

text \<open>\<open>for pair in value\<close>: the elements of a list, the keys of a dictionary, the
  characters of a string.\<close>

fun iterate :: "json \<Rightarrow> py_error + json list" where
  "iterate (JList xs) = Inr xs"
| "iterate (JDict kvs) = Inr (map (\<lambda>kv. JStr (fst kv)) kvs)"
| "iterate (JStr s) = Inr (map (\<lambda>c. JStr [c]) s)"
| "iterate JNull = Inl TypeError"
| "iterate (JBool b) = Inl TypeError"
| "iterate (JNum r) = Inl TypeError"

text \<open>A value used as a number (\<open>x > 0\<close>, \<open>x / y\<close>, \<open>x < limit\<close>): \<open>bool\<close> is a
  subclass of \<open>int\<close>; every other non-number raises.\<close>

fun num :: "json \<Rightarrow> py_error + rat" where
  "num (JNum r) = Inr r"
| "num (JBool b) = Inr (if b then 1 else 0)"
| "num JNull = Inl TypeError"
| "num (JStr s) = Inl TypeError"
| "num (JList xs) = Inl TypeError"
| "num (JDict kvs) = Inl TypeError"

text \<open>
  Members of the set \<open>tracked_pairs\<close>. Python compares and hashes \<open>True\<close>, \<open>1\<close> and
  \<open>1.0\<close> alike; lists and dictionaries are unhashable.
\<close>

datatype key = KNone | KNum rat | KStr string

fun hash_key :: "json \<Rightarrow> py_error + key" where
  "hash_key JNull = Inr KNone"
| "hash_key (JBool b) = Inr (KNum (if b then 1 else 0))"
| "hash_key (JNum r) = Inr (KNum r)"
| "hash_key (JStr s) = Inr (KStr s)"
| "hash_key (JList xs) = Inl TypeError"
| "hash_key (JDict kvs) = Inl TypeError"

section \<open>Configuration\<close>

record config =
  MIN_LIQUIDITY_USD :: rat
  MIN_TXNS_M5 :: rat
  BUY_SELL_RATIO_MIN :: rat
  BUY_SELL_RATIO_MAX :: rat

definition default_config :: config where
  "default_config =
     \<lparr>MIN_LIQUIDITY_USD = 5000, MIN_TXNS_M5 = 10,
      BUY_SELL_RATIO_MIN = 1 / 10, BUY_SELL_RATIO_MAX = 10\<rparr>"

section \<open>Analysis of one pair\<close>

text \<open>The reason strings, by the values they interpolate.\<close>

datatype reason =
    Low_liquidity rat rat
  | Low_transaction_volume rat rat
  | Unbalanced_ratio rat

text \<open>The printed analysis of a new pair.\<close>

record report =
  is_trustworthy :: bool
  base_token_name :: json
  base_token_symbol :: json
  pair_address :: json
  liquidity_usd :: rat
  buys_m5 :: rat
  sells_m5 :: rat
  ratio :: rat
  reasons :: "reason list"

text \<open>Sequencing of steps that may raise: the first exception ends the sequence.\<close>

definition and_then :: "py_error + 'a \<Rightarrow> ('a \<Rightarrow> py_error + 'b) \<Rightarrow> py_error + 'b" where
  "and_then r f = (case r of Inl e \<Rightarrow> Inl e | Inr x \<Rightarrow> f x)"

text \<open>Lines 72 to 77: symbol, name, liquidity, buys and sells of a pair object.\<close>

definition extract_fields :: "json \<Rightarrow> py_error + (json \<times> json \<times> json \<times> json \<times> json)" where
  "extract_fields pair =
     and_then (subscript pair ''baseToken'') (\<lambda>bt.
     and_then (subscript bt ''symbol'') (\<lambda>symbol.
     and_then (subscript pair ''baseToken'') (\<lambda>bt'.
     and_then (subscript bt' ''name'') (\<lambda>name.
     and_then (get_default pair ''liquidity'' (JDict [])) (\<lambda>liq.
     and_then (get_default liq ''usd'' (JNum 0)) (\<lambda>usd.
     and_then (get_default pair ''txns'' (JDict [])) (\<lambda>txns.
     and_then (get_default txns ''m5'' (JDict [(''buys'', JNum 0), (''sells'', JNum 0)]))
       (\<lambda>txns_m5.
     and_then (get_default txns_m5 ''buys'' (JNum 0)) (\<lambda>buys.
     and_then (get_default txns_m5 ''sells'' (JNum 0)) (\<lambda>sells.
     Inr (symbol, name, usd, buys, sells)))))))))))"

text \<open>Line 80: the comparison \<open>sells_m5 > 0\<close> comes first, then the chosen branch.\<close>

definition buy_sell_ratio :: "json \<Rightarrow> json \<Rightarrow> py_error + rat" where
  "buy_sell_ratio buys sells =
     and_then (num sells) (\<lambda>s.
       if s > 0 then and_then (num buys) (\<lambda>b. Inr (b / s))
       else and_then (num buys) (\<lambda>b. if b > 0 then Inr (b / 1) else Inr 1))"

text \<open>Lines 83 to 99: the flag and the reasons, updated by three consecutive tests.\<close>

type_synonym verdict = "bool \<times> reason list"

definition check_liquidity :: "config \<Rightarrow> rat \<Rightarrow> verdict \<Rightarrow> verdict" where
  "check_liquidity cfg liq v =
     (if liq < MIN_LIQUIDITY_USD cfg
      then (False, snd v @ [Low_liquidity liq (MIN_LIQUIDITY_USD cfg)]) else v)"

definition check_volume :: "config \<Rightarrow> rat \<Rightarrow> rat \<Rightarrow> verdict \<Rightarrow> verdict" where
  "check_volume cfg buys sells v =
     (if buys + sells < MIN_TXNS_M5 cfg
      then (False, snd v @ [Low_transaction_volume (buys + sells) (MIN_TXNS_M5 cfg)]) else v)"

definition check_ratio :: "config \<Rightarrow> rat \<Rightarrow> verdict \<Rightarrow> verdict" where
  "check_ratio cfg r v =
     (if \<not> (BUY_SELL_RATIO_MIN cfg \<le> r \<and> r \<le> BUY_SELL_RATIO_MAX cfg)
      then (False, snd v @ [Unbalanced_ratio r]) else v)"

definition classify :: "config \<Rightarrow> rat \<Rightarrow> rat \<Rightarrow> rat \<Rightarrow> rat \<Rightarrow> verdict" where
  "classify cfg liq buys sells r =
     check_ratio cfg r (check_volume cfg buys sells (check_liquidity cfg liq (True, [])))"

text \<open>Lines 80 to 99 on the extracted values, with the type errors of the comparisons.\<close>

definition judge :: "config \<Rightarrow> json \<Rightarrow> json \<Rightarrow> json \<Rightarrow> py_error + (rat \<times> verdict)" where
  "judge cfg usd buys sells =
     and_then (buy_sell_ratio buys sells) (\<lambda>r.
     and_then (num usd) (\<lambda>liq.
     and_then (num buys) (\<lambda>b.
     and_then (num sells) (\<lambda>s.
     Inr (r, classify cfg liq b s r)))))"

text \<open>Lines 72 to 116 for a pair that is new: extraction, analysis and the report.\<close>

definition make_report ::
  "json \<Rightarrow> json \<Rightarrow> json \<Rightarrow> rat \<Rightarrow> rat \<Rightarrow> rat \<Rightarrow> rat \<Rightarrow> verdict \<Rightarrow> report" where
  "make_report name symbol address liq b s r v =
     \<lparr>is_trustworthy = (fst v), base_token_name = name, base_token_symbol = symbol,
      pair_address = address, liquidity_usd = liq, buys_m5 = b, sells_m5 = s,
      ratio = r, reasons = (snd v)\<rparr>"

definition analyse :: "config \<Rightarrow> json \<Rightarrow> json \<Rightarrow> py_error + report" where
  "analyse cfg pair address =
     and_then (extract_fields pair) (\<lambda>(symbol, name, usd, buys, sells).
     and_then (judge cfg usd buys sells) (\<lambda>(r, v).
     and_then (num usd) (\<lambda>liq.
     and_then (num buys) (\<lambda>b.
     and_then (num sells) (\<lambda>s.
     Inr (make_report name symbol address liq b s r v))))))"

section \<open>The poll cycle\<close>

text \<open>What a cycle prints.\<close>

datatype event =
    No_new_pairs
  | New_token report
  | Error_fetching py_error
  | Unexpected_error py_error

text \<open>
  The body of the loop, lines 62 to 116, for one pair: the error raised (if any), the
  set \<open>tracked_pairs\<close> afterwards, and what was printed.
\<close>

definition process_pair ::
  "config \<Rightarrow> json \<Rightarrow> key set \<Rightarrow> py_error option \<times> key set \<times> event list" where
  "process_pair cfg pair tracked_pairs =
     (case subscript pair ''pairAddress'' of
        Inl e \<Rightarrow> (Some e, tracked_pairs, [])
      | Inr address \<Rightarrow>
         (case hash_key address of
            Inl e \<Rightarrow> (Some e, tracked_pairs, [])
          | Inr k \<Rightarrow>
             if k \<in> tracked_pairs then (None, tracked_pairs, [])
             else (case analyse cfg pair address of
                     Inl e \<Rightarrow> (Some e, insert k tracked_pairs, [])
                   | Inr r \<Rightarrow> (None, insert k tracked_pairs, [New_token r]))))"

text \<open>The \<open>for\<close> loop of line 61: an exception leaves the loop at once.\<close>

fun process_pairs ::
  "config \<Rightarrow> json list \<Rightarrow> key set \<Rightarrow> py_error option \<times> key set \<times> event list" where
  "process_pairs cfg [] tracked_pairs = (None, tracked_pairs, [])"
| "process_pairs cfg (pair # pairs) tracked_pairs =
     (case process_pair cfg pair tracked_pairs of
        (Some e, tracked', out) \<Rightarrow> (Some e, tracked', out)
      | (None, tracked', out) \<Rightarrow>
         (case process_pairs cfg pairs tracked' of
            (err, tracked'', out') \<Rightarrow> (err, tracked'', out @ out')))"

text \<open>Line 57: \<open>not data or 'pairs' not in data or not data['pairs']\<close>, left to right.\<close>

definition no_pairs :: "json \<Rightarrow> py_error + bool" where
  "no_pairs data =
     (if \<not> truthy data then Inr True
      else case contains data ''pairs'' of
             Inl e \<Rightarrow> Inl e
           | Inr False \<Rightarrow> Inr True
           | Inr True \<Rightarrow>
              (case subscript data ''pairs'' of
                 Inl e \<Rightarrow> Inl e
               | Inr v \<Rightarrow> Inr (\<not> truthy v)))"

text \<open>
  What the provider call does: \<open>requests.get\<close> raises, or returns a response with a
  status code and a body that parses to a value or does not parse.
\<close>

datatype fetch = Get_raises py_error | Response nat "json option"

text \<open>Lines 53 to 116, the body of the \<open>try\<close>.\<close>

definition try_body ::
  "config \<Rightarrow> fetch \<Rightarrow> key set \<Rightarrow> py_error option \<times> key set \<times> event list" where
  "try_body cfg f tracked_pairs =
     (case f of
        Get_raises e \<Rightarrow> (Some e, tracked_pairs, [])
      | Response status_code body \<Rightarrow>
         if 400 \<le> status_code \<and> status_code < 600 then (Some HTTPError, tracked_pairs, [])
         else (case body of
                 None \<Rightarrow> (Some JSONDecodeError, tracked_pairs, [])
               | Some data \<Rightarrow>
                  (case no_pairs data of
                     Inl e \<Rightarrow> (Some e, tracked_pairs, [])
                   | Inr True \<Rightarrow> (None, tracked_pairs, [No_new_pairs])
                   | Inr False \<Rightarrow>
                      (case subscript data ''pairs'' of
                         Inl e \<Rightarrow> (Some e, tracked_pairs, [])
                       | Inr v \<Rightarrow>
                          (case iterate v of
                             Inl e \<Rightarrow> (Some e, tracked_pairs, [])
                           | Inr pairs \<Rightarrow> process_pairs cfg pairs tracked_pairs)))))"

text \<open>One call of \<open>check_new_tokens\<close>: the \<open>try\<close> with its two handlers.\<close>

record outcome =
  tracked :: "key set"
  printed :: "event list"
  escaped :: "py_error option"

definition check_new_tokens :: "config \<Rightarrow> fetch \<Rightarrow> key set \<Rightarrow> outcome" where
  "check_new_tokens cfg f tracked_pairs =
     (case try_body cfg f tracked_pairs of
        (None, tracked', out) \<Rightarrow> \<lparr>tracked = tracked', printed = out, escaped = None\<rparr>
      | (Some e, tracked', out) \<Rightarrow>
         if is_request_exception e
         then \<lparr>tracked = tracked', printed = out @ [Error_fetching e], escaped = None\<rparr>
         else if is_exception e
         then \<lparr>tracked = tracked', printed = out @ [Unexpected_error e], escaped = None\<rparr>
         else \<lparr>tracked = tracked', printed = out, escaped = Some e\<rparr>)"

text \<open>
  The loop of \<open>main\<close>, for the provider behaviour of the first cycles: each cycle starts
  from the set the cycle before left; an exception that leaves \<open>check_new_tokens\<close> ends
  the loop.
\<close>

fun main_cycles :: "config \<Rightarrow> fetch list \<Rightarrow> key set \<Rightarrow> outcome list" where
  "main_cycles cfg [] tracked_pairs = []"
| "main_cycles cfg (f # fs) tracked_pairs =
     (let out = check_new_tokens cfg f tracked_pairs
      in out # (case escaped out of
                  None \<Rightarrow> main_cycles cfg fs (tracked out)
                | Some e \<Rightarrow> []))"

text \<open>The result of a cycle: the reports it printed, and the identifiers they are for.\<close>

fun reports :: "event list \<Rightarrow> report list" where
  "reports [] = []"
| "reports (New_token r # evs) = r # reports evs"
| "reports (ev # evs) = reports evs"

definition reported_keys :: "event list \<Rightarrow> (py_error + key) list" where
  "reported_keys evs = map (\<lambda>r. hash_key (pair_address r)) (reports evs)"

section \<open>Notions used to state the properties\<close>

text \<open>The identifiers of the reports a cycle printed, as members of \<open>tracked_pairs\<close>.\<close>

definition cycle_keys :: "outcome \<Rightarrow> (py_error + key) list" where
  "cycle_keys out = reported_keys (printed out)"

text \<open>The identifier of a pair object: lines 62 and 65 together.\<close>

definition pair_key :: "json \<Rightarrow> py_error + key" where
  "pair_key pair = and_then (subscript pair ''pairAddress'') hash_key"

text \<open>
  The interface description in words: a field is reached through nested objects and may be
  absent; an absent number maps to the documented default 0.
\<close>

fun lookup_path :: "json \<Rightarrow> string list \<Rightarrow> json option" where
  "lookup_path v [] = Some v"
| "lookup_path (JDict kvs) (k # ks) =
     (case map_of kvs k of None \<Rightarrow> None | Some v \<Rightarrow> lookup_path v ks)"
| "lookup_path v (k # ks) = None"

fun or_zero :: "json option \<Rightarrow> json" where
  "or_zero None = JNum 0"
| "or_zero (Some v) = v"

fun absent_or_object :: "json option \<Rightarrow> bool" where
  "absent_or_object None = True"
| "absent_or_object (Some (JDict kvs)) = True"
| "absent_or_object (Some v) = False"

section \<open>Basic facts about the model\<close>

lemma and_then_Inl [simp]: "and_then (Inl e) f = Inl e"
  by (simp add: and_then_def)

lemma and_then_Inr [simp]: "and_then (Inr x) f = f x"
  by (simp add: and_then_def)

lemma reports_append: "reports (xs @ ys) = reports xs @ reports ys"
  by (induction xs rule: reports.induct) auto

lemma reported_keys_append: "reported_keys (xs @ ys) = reported_keys xs @ reported_keys ys"
  by (simp add: reported_keys_def reports_append)

lemma process_pair_tracked:
  "process_pair cfg p T = (err, T', evs) \<Longrightarrow> T \<subseteq> T'"
  by (auto simp: process_pair_def split: sum.splits if_splits)

lemma analyse_address: "analyse cfg p a = Inr r \<Longrightarrow> pair_address r = a"
  by (auto simp: analyse_def and_then_def make_report_def split: sum.splits prod.splits)

lemma process_pair_reported:
  "process_pair cfg p T = (err, T', evs) \<Longrightarrow> x \<in> set (reported_keys evs) \<Longrightarrow>
     \<exists>k. x = Inr k \<and> k \<in> T' \<and> k \<notin> T"
  by (auto simp: process_pair_def reported_keys_def analyse_address split: sum.splits if_splits)

lemma process_pair_distinct:
  "process_pair cfg p T = (err, T', evs) \<Longrightarrow> distinct (reported_keys evs)"
  by (auto simp: process_pair_def reported_keys_def split: sum.splits if_splits)

lemma process_pairs_tracked:
  "process_pairs cfg ps T = (err, T', evs) \<Longrightarrow> T \<subseteq> T'"
proof (induction ps arbitrary: T err T' evs)
  case Nil
  then show ?case by simp
next
  case (Cons p ps)
  obtain e1 T1 o1 where p1: "process_pair cfg p T = (e1, T1, o1)"
    by (cases "process_pair cfg p T") auto
  have sub1: "T \<subseteq> T1" using p1 by (rule process_pair_tracked)
  show ?case
  proof (cases e1)
    case None
    obtain e2 T2 o2 where p2: "process_pairs cfg ps T1 = (e2, T2, o2)"
      by (cases "process_pairs cfg ps T1") auto
    have "T1 \<subseteq> T2" using p2 by (rule Cons.IH)
    moreover have "T' = T2" using Cons.prems p1 p2 None by simp
    ultimately show ?thesis using sub1 by blast
  next
    case (Some e)
    then have "T' = T1" using Cons.prems p1 by simp
    then show ?thesis using sub1 by simp
  qed
qed

lemma process_pairs_reported:
  "process_pairs cfg ps T = (err, T', evs) \<Longrightarrow> x \<in> set (reported_keys evs) \<Longrightarrow>
     \<exists>k. x = Inr k \<and> k \<in> T' \<and> k \<notin> T"
proof (induction ps arbitrary: T err T' evs)
  case Nil
  then show ?case by (simp add: reported_keys_def)
next
  case (Cons p ps)
  obtain e1 T1 o1 where p1: "process_pair cfg p T = (e1, T1, o1)"
    by (cases "process_pair cfg p T") auto
  have sub1: "T \<subseteq> T1" using p1 by (rule process_pair_tracked)
  show ?case
  proof (cases e1)
    case None
    obtain e2 T2 o2 where p2: "process_pairs cfg ps T1 = (e2, T2, o2)"
      by (cases "process_pairs cfg ps T1") auto
    have sub2: "T1 \<subseteq> T2" using p2 by (rule process_pairs_tracked)
    have eq: "T' = T2" "evs = o1 @ o2" using Cons.prems(1) p1 p2 None by simp_all
    from Cons.prems(2) eq have "x \<in> set (reported_keys o1) \<or> x \<in> set (reported_keys o2)"
      by (simp add: reported_keys_append)
    then show ?thesis
    proof
      assume "x \<in> set (reported_keys o1)"
      from process_pair_reported[OF p1 this] show ?thesis using sub2 eq by blast
    next
      assume "x \<in> set (reported_keys o2)"
      from Cons.IH[OF p2 this] show ?thesis using sub1 eq by blast
    qed
  next
    case (Some e)
    then have "T' = T1" "evs = o1" using Cons.prems p1 by simp_all
    then show ?thesis using process_pair_reported[OF p1] Cons.prems(2) by simp
  qed
qed

lemma process_pairs_distinct:
  "process_pairs cfg ps T = (err, T', evs) \<Longrightarrow> distinct (reported_keys evs)"
proof (induction ps arbitrary: T err T' evs)
  case Nil
  then show ?case by (simp add: reported_keys_def)
next
  case (Cons p ps)
  obtain e1 T1 o1 where p1: "process_pair cfg p T = (e1, T1, o1)"
    by (cases "process_pair cfg p T") auto
  show ?case
  proof (cases e1)
    case None
    obtain e2 T2 o2 where p2: "process_pairs cfg ps T1 = (e2, T2, o2)"
      by (cases "process_pairs cfg ps T1") auto
    have eq: "evs = o1 @ o2" using Cons.prems(1) p1 p2 None by simp
    have d1: "distinct (reported_keys o1)" using p1 by (rule process_pair_distinct)
    have d2: "distinct (reported_keys o2)" using p2 by (rule Cons.IH)
    have "set (reported_keys o1) \<inter> set (reported_keys o2) = {}"
      using process_pair_reported[OF p1] process_pairs_reported[OF p2] by blast
    then show ?thesis using d1 d2 eq by (simp add: reported_keys_append)
  next
    case (Some e)
    then have "evs = o1" using Cons.prems p1 by simp
    then show ?thesis using process_pair_distinct[OF p1] by simp
  qed
qed

lemma process_pairs_append:
  "process_pairs cfg (xs @ ys) T =
     (case process_pairs cfg xs T of
        (Some e, T1, o1) \<Rightarrow> (Some e, T1, o1)
      | (None, T1, o1) \<Rightarrow>
          (case process_pairs cfg ys T1 of (err, T2, o2) \<Rightarrow> (err, T2, o1 @ o2)))"
  by (induction xs arbitrary: T) (auto split: prod.splits option.splits)

lemmas eval_defs = check_new_tokens_def try_body_def no_pairs_def process_pair_def analyse_def
  extract_fields_def judge_def buy_sell_ratio_def classify_def check_liquidity_def
  check_volume_def check_ratio_def make_report_def default_config_def

lemma subscript_raises: "subscript v k = Inl e \<Longrightarrow> e = KeyError \<or> e = TypeError"
  by (cases v) (auto split: option.splits)

lemma reported_keys_single [simp]:
  "reported_keys [No_new_pairs] = []" "reported_keys [Error_fetching e] = []"
  "reported_keys [Unexpected_error e] = []" "reported_keys [] = []"
  by (simp_all add: reported_keys_def)

lemma try_body_cases:
  "try_body cfg f T = (err, T', evs) \<Longrightarrow>
     (T' = T \<and> reported_keys evs = []) \<or> (\<exists>ps. process_pairs cfg ps T = (err, T', evs))"
  by (auto simp: try_body_def split: fetch.splits if_splits option.splits sum.splits bool.splits)

lemma try_body_tracked: "try_body cfg f T = (err, T', evs) \<Longrightarrow> T \<subseteq> T'"
  using try_body_cases process_pairs_tracked by blast

lemma try_body_reported:
  "try_body cfg f T = (err, T', evs) \<Longrightarrow> x \<in> set (reported_keys evs) \<Longrightarrow>
     \<exists>k. x = Inr k \<and> k \<in> T' \<and> k \<notin> T"
  using try_body_cases [of cfg f T err T' evs] process_pairs_reported by fastforce

lemma try_body_distinct:
  "try_body cfg f T = (err, T', evs) \<Longrightarrow> distinct (reported_keys evs)"
  using try_body_cases [of cfg f T err T' evs] process_pairs_distinct by fastforce

lemma check_new_tokens_cases:
  "\<exists>err evs. try_body cfg f T = (err, tracked (check_new_tokens cfg f T), evs)
     \<and> cycle_keys (check_new_tokens cfg f T) = reported_keys evs"
  by (cases "try_body cfg f T")
     (auto simp: check_new_tokens_def cycle_keys_def reported_keys_append split: option.splits)

lemma check_new_tokens_tracked: "T \<subseteq> tracked (check_new_tokens cfg f T)"
  using check_new_tokens_cases [of cfg f T] try_body_tracked by blast

lemma check_new_tokens_reported:
  "x \<in> set (cycle_keys (check_new_tokens cfg f T)) \<Longrightarrow>
     \<exists>k. x = Inr k \<and> k \<in> tracked (check_new_tokens cfg f T) \<and> k \<notin> T"
  using check_new_tokens_cases [of cfg f T] try_body_reported by fastforce

lemma check_new_tokens_distinct: "distinct (cycle_keys (check_new_tokens cfg f T))"
  using check_new_tokens_cases [of cfg f T] try_body_distinct by fastforce

lemma main_cycles_reported:
  "x \<in> set (concat (map cycle_keys (main_cycles cfg fs T))) \<Longrightarrow> \<exists>k. x = Inr k \<and> k \<notin> T"
proof (induction fs arbitrary: T)
  case Nil
  then show ?case by simp
next
  case (Cons f fs)
  let ?out = "check_new_tokens cfg f T"
  from Cons.prems have "x \<in> set (cycle_keys ?out)
      \<or> x \<in> set (concat (map cycle_keys (main_cycles cfg fs (tracked ?out))))"
    by (auto simp: Let_def split: option.splits)
  then show ?case
  proof
    assume "x \<in> set (cycle_keys ?out)"
    then show ?thesis using check_new_tokens_reported by blast
  next
    assume "x \<in> set (concat (map cycle_keys (main_cycles cfg fs (tracked ?out))))"
    then obtain k where "x = Inr k" "k \<notin> tracked ?out" using Cons.IH by blast
    then show ?thesis using check_new_tokens_tracked [of T cfg f] by blast
  qed
qed

lemma main_cycles_distinct: "distinct (concat (map cycle_keys (main_cycles cfg fs T)))"
proof (induction fs arbitrary: T)
  case Nil
  then show ?case by simp
next
  case (Cons f fs)
  let ?out = "check_new_tokens cfg f T"
  have "set (cycle_keys ?out)
      \<inter> set (concat (map cycle_keys (main_cycles cfg fs (tracked ?out)))) = {}"
    using check_new_tokens_reported [of _ cfg f T] main_cycles_reported [of _ cfg fs "tracked ?out"]
    by blast
  then show ?case
    using Cons.IH [of "tracked ?out"] check_new_tokens_distinct [of cfg f T]
    by (auto simp: Let_def split: option.splits)
qed

lemma main_cycles_tracked:
  "out \<in> set (main_cycles cfg fs T) \<Longrightarrow> T \<subseteq> tracked out"
proof (induction fs arbitrary: T)
  case Nil
  then show ?case by simp
next
  case (Cons f fs)
  let ?o = "check_new_tokens cfg f T"
  from Cons.prems have "out = ?o \<or> out \<in> set (main_cycles cfg fs (tracked ?o))"
    by (auto simp: Let_def split: option.splits)
  then show ?case
    using Cons.IH [of "tracked ?o"] check_new_tokens_tracked [of T cfg f] by blast
qed

lemma main_cycles_growing:
  "sorted_wrt (\<subseteq>) (T # map tracked (main_cycles cfg fs T))"
proof (induction fs arbitrary: T)
  case Nil
  then show ?case by simp
next
  case (Cons f fs)
  let ?o = "check_new_tokens cfg f T"
  have "\<forall>out \<in> set (main_cycles cfg (f # fs) T). T \<subseteq> tracked out"
    using main_cycles_tracked by blast
  moreover have "sorted_wrt (\<subseteq>) (map tracked (main_cycles cfg (f # fs) T))"
    using Cons.IH [of "tracked ?o"] by (auto simp: Let_def split: option.splits)
  ultimately show ?case by simp
qed

lemma try_body_listing:
  assumes "\<not> (400 \<le> st \<and> st < 600)" "map_of kvs ''pairs'' = Some (JList (p # ps))"
  shows "try_body cfg (Response st (Some (JDict kvs))) T = process_pairs cfg (p # ps) T"
proof -
  have "kvs \<noteq> []" using assms(2) by auto
  moreover have "''pairs'' \<in> fst ` set kvs"
    using assms(2) by (metis map_of_eq_None_iff option.distinct(1))
  ultimately have "no_pairs (JDict kvs) = Inr False"
    using assms(2) by (simp add: no_pairs_def)
  then show ?thesis using assms by (auto simp: try_body_def)
qed

lemma seen_pair_skipped:
  "pair_key p = Inr k \<Longrightarrow> k \<in> T \<Longrightarrow> process_pair cfg p T = (None, T, [])"
  by (auto simp: pair_key_def process_pair_def and_then_def split: sum.splits)



lemma extract_fields_defaults:
  assumes "map_of kvs ''baseToken'' = Some (JDict bt)"
    and "map_of bt ''symbol'' = Some symbol" and "map_of bt ''name'' = Some name"
    and "absent_or_object (map_of kvs ''liquidity'')"
    and "absent_or_object (map_of kvs ''txns'')"
    and "absent_or_object (lookup_path (JDict kvs) [''txns'', ''m5''])"
  shows "extract_fields (JDict kvs) =
           Inr (symbol, name,
                or_zero (lookup_path (JDict kvs) [''liquidity'', ''usd'']),
                or_zero (lookup_path (JDict kvs) [''txns'', ''m5'', ''buys'']),
                or_zero (lookup_path (JDict kvs) [''txns'', ''m5'', ''sells'']))"
  using assms
  apply (simp add: extract_fields_def)
  apply (cases "map_of kvs ''liquidity''"; cases "map_of kvs ''txns''")
  apply (auto split: option.splits json.splits elim!: absent_or_object.elims)
  done

section \<open>The classification\<close>





section \<open>The set of identifiers already seen\<close>

text \<open>
  Claim C3. In every run of cycles of one process, whatever the provider returns, no
  identifier is reported twice: the identifiers of all the reports of all the cycles are
  pairwise distinct. \<open>tracked_pairs\<close> only grows from cycle to cycle. Every report is
  for a hashable identifier that was not in \<open>tracked_pairs\<close> when the run started. A
  pair whose identifier is already in \<open>tracked_pairs\<close> is passed over whatever its
  other fields hold: nothing is printed and nothing changes.
\<close>

theorem one_verdict_per_identifier:
  "distinct (concat (map cycle_keys (main_cycles cfg fs T)))
   \<and> sorted_wrt (\<subseteq>) (T # map tracked (main_cycles cfg fs T))
   \<and> (\<forall>x \<in> set (concat (map cycle_keys (main_cycles cfg fs T))). \<exists>k. x = Inr k \<and> k \<notin> T)
   \<and> (pair_key p = Inr k' \<and> k' \<in> T \<longrightarrow> process_pair cfg p T = (None, T, []))"
  using main_cycles_distinct [of cfg fs T] main_cycles_growing [of T cfg fs]
    main_cycles_reported [of _ cfg fs T] seen_pair_skipped [of p k' T cfg]
  by blast

text \<open>
  The theorem for a process that has seen \<open>0xabc\<close>: a later response listing \<open>0xabc\<close>
  with liquidity and counts yields no report for it.
\<close>

theorem one_verdict_per_identifier_witness:
  "Inr (KStr ''0xabc'') \<notin> set (concat (map cycle_keys (main_cycles default_config
      [Response 200 (Some (JDict [(''pairs'', JList [JDict [(''pairAddress'', JStr ''0xabc''),
         (''baseToken'', JDict [(''symbol'', JStr ''TKN''), (''name'', JStr ''Token'')]),
         (''liquidity'', JDict [(''usd'', JNum 10000)]),
         (''txns'', JDict [(''m5'', JDict [(''buys'', JNum 20), (''sells'', JNum 15)])])]])]))]
      {KStr ''0xabc''})))
   \<and> process_pair default_config
        (JDict [(''pairAddress'', JStr ''0xabc''),
         (''baseToken'', JDict [(''symbol'', JStr ''TKN''), (''name'', JStr ''Token'')]),
         (''liquidity'', JDict [(''usd'', JNum 10000)]),
         (''txns'', JDict [(''m5'', JDict [(''buys'', JNum 20), (''sells'', JNum 15)])])])
        {KStr ''0xabc''} = (None, {KStr ''0xabc''}, [])"
  using one_verdict_per_identifier [of default_config
      "[Response 200 (Some (JDict [(''pairs'', JList [JDict [(''pairAddress'', JStr ''0xabc''),
         (''baseToken'', JDict [(''symbol'', JStr ''TKN''), (''name'', JStr ''Token'')]),
         (''liquidity'', JDict [(''usd'', JNum 10000)]),
         (''txns'', JDict [(''m5'', JDict [(''buys'', JNum 20), (''sells'', JNum 15)])])]])]))]"
      "{KStr ''0xabc''}"
      "JDict [(''pairAddress'', JStr ''0xabc''),
         (''baseToken'', JDict [(''symbol'', JStr ''TKN''), (''name'', JStr ''Token'')]),
         (''liquidity'', JDict [(''usd'', JNum 10000)]),
         (''txns'', JDict [(''m5'', JDict [(''buys'', JNum 20), (''sells'', JNum 15)])])]"
      "KStr ''0xabc''"]
  by (auto simp: pair_key_def)

section \<open>Cycles without pairs\<close>

text \<open>
  Claim C4. When the whole fetch fails, the cycle prints one error line and no report,
  no exception leaves \<open>check_new_tokens\<close>, and \<open>tracked_pairs\<close> is what it was. The
  three ways to fail: \<open>requests.get\<close> raises an exception (any class derived from
  \<open>Exception\<close>, the transport errors among them); \<open>raise_for_status\<close> raises for a status
  code from 400 to 599; the body does not parse.
\<close>

theorem failed_fetch_changes_nothing:
  "(is_exception e \<longrightarrow>
      check_new_tokens cfg (Get_raises e) T =
        \<lparr>tracked = T,
         printed = [if is_request_exception e then Error_fetching e else Unexpected_error e],
         escaped = None\<rparr>)
   \<and> (400 \<le> st \<and> st < 600 \<longrightarrow>
      check_new_tokens cfg (Response st body) T =
        \<lparr>tracked = T, printed = [Error_fetching HTTPError], escaped = None\<rparr>)
   \<and> (\<not> (400 \<le> st' \<and> st' < 600) \<longrightarrow>
      check_new_tokens cfg (Response st' None) T =
        \<lparr>tracked = T, printed = [Error_fetching JSONDecodeError], escaped = None\<rparr>)
   \<and> reports [Error_fetching e'] = [] \<and> reports [Unexpected_error e'] = []"
  by (simp add: check_new_tokens_def try_body_def)

theorem failed_fetch_changes_nothing_witness:
  "check_new_tokens default_config (Get_raises Timeout) {KStr ''0xabc''} =
     \<lparr>tracked = {KStr ''0xabc''}, printed = [Error_fetching Timeout], escaped = None\<rparr>
   \<and> check_new_tokens default_config (Response 503 (Some JNull)) {KStr ''0xabc''} =
     \<lparr>tracked = {KStr ''0xabc''}, printed = [Error_fetching HTTPError], escaped = None\<rparr>
   \<and> check_new_tokens default_config (Response 200 None) {KStr ''0xabc''} =
     \<lparr>tracked = {KStr ''0xabc''}, printed = [Error_fetching JSONDecodeError],
      escaped = None\<rparr>"
  using failed_fetch_changes_nothing
    [of Timeout default_config "{KStr ''0xabc''}" 503 "Some JNull" 200]
  by simp

text \<open>
  Claim C6. When the status code is not an error and the parsed response is empty
  (falsy), or is an object without the key \<open>pairs\<close>, or is an object whose \<open>pairs\<close> is
  empty (falsy), the cycle prints only that there are no new pairs: no report, no error,
  no exception, and \<open>tracked_pairs\<close> is what it was.
\<close>

theorem no_listing_is_normal:
  assumes "\<not> (400 \<le> st \<and> st < 600)"
    and "\<not> truthy data
         \<or> (\<exists>kvs. data = JDict kvs \<and> map_of kvs ''pairs'' = None)
         \<or> (\<exists>kvs v. data = JDict kvs \<and> map_of kvs ''pairs'' = Some v \<and> \<not> truthy v)"
  shows "check_new_tokens cfg (Response st (Some data)) T =
           \<lparr>tracked = T, printed = [No_new_pairs], escaped = None\<rparr>
         \<and> reports [No_new_pairs] = []"
proof -
  have "no_pairs data = Inr True"
    using assms(2)
    by (auto simp: no_pairs_def map_of_eq_None_iff image_iff split: sum.splits bool.splits
        dest: weak_map_of_SomeI map_of_SomeD)
  then show ?thesis using assms(1)
    by (simp add: check_new_tokens_def try_body_def)
qed

theorem no_listing_is_normal_witness:
  "check_new_tokens default_config (Response 200 (Some (JDict []))) {KStr ''0xabc''} =
     \<lparr>tracked = {KStr ''0xabc''}, printed = [No_new_pairs], escaped = None\<rparr>
   \<and> check_new_tokens default_config
       (Response 200 (Some (JDict [(''schemaVersion'', JStr ''1.0.0'')]))) {KStr ''0xabc''} =
     \<lparr>tracked = {KStr ''0xabc''}, printed = [No_new_pairs], escaped = None\<rparr>
   \<and> check_new_tokens default_config
       (Response 200 (Some (JDict [(''pairs'', JList [])]))) {KStr ''0xabc''} =
     \<lparr>tracked = {KStr ''0xabc''}, printed = [No_new_pairs], escaped = None\<rparr>"
  using no_listing_is_normal [of 200 "JDict []" default_config "{KStr ''0xabc''}"]
    no_listing_is_normal [of 200 "JDict [(''schemaVersion'', JStr ''1.0.0'')]"
      default_config "{KStr ''0xabc''}"]
    no_listing_is_normal [of 200 "JDict [(''pairs'', JList [])]"
      default_config "{KStr ''0xabc''}"]
  by simp

section \<open>Malformed pair objects\<close>

text \<open>
  Claim C5, as amended. When a pair object of the listing has no usable pair identifier
  (the subscript of line 62 raises) and the pairs before it were processed without an
  exception, the cycle ends at that pair: \<open>tracked_pairs\<close> and the reports are those
  the earlier pairs left, nothing is added for the malformed pair, the pairs after it
  are neither analysed nor added to \<open>tracked_pairs\<close> in this cycle, and the exception
  is caught and printed by \<open>check_new_tokens\<close>.
\<close>

theorem missing_identifier_ends_cycle:
  assumes "\<not> (400 \<le> st \<and> st < 600)"
    and "map_of kvs ''pairs'' = Some (JList (pre @ p # post))"
    and "process_pairs cfg pre T = (None, T1, o1)"
    and "subscript p ''pairAddress'' = Inl e"
  shows "check_new_tokens cfg (Response st (Some (JDict kvs))) T =
           \<lparr>tracked = T1, printed = o1 @ [Unexpected_error e], escaped = None\<rparr>"
proof -
  let ?f = "Response st (Some (JDict kvs))"
  have "pre @ p # post = hd (pre @ p # post) # tl (pre @ p # post)" by simp
  then have "try_body cfg ?f T = process_pairs cfg (pre @ p # post) T"
    using try_body_listing [OF assms(1), of kvs "hd (pre @ p # post)" "tl (pre @ p # post)"]
      assms(2) by simp
  moreover have "process_pair cfg p T1 = (Some e, T1, [])"
    using assms(4) by (simp add: process_pair_def)
  ultimately have tb: "try_body cfg ?f T = (Some e, T1, o1)"
    using assms(3) by (simp add: process_pairs_append)
  have "e = KeyError \<or> e = TypeError" using assms(4) by (rule subscript_raises)
  then show ?thesis using tb by (auto simp: check_new_tokens_def)
qed

theorem missing_identifier_ends_cycle_witness:
  "check_new_tokens default_config
     (Response 200 (Some (JDict [(''pairs'', JList
        ([JDict [(''pairAddress'', JStr ''0xabc''),
                 (''baseToken'', JDict [(''symbol'', JStr ''TKN''), (''name'', JStr ''Token'')])]]
         @ JDict [(''baseToken'', JDict [(''symbol'', JStr ''BAD''), (''name'', JStr ''Bad'')])]
         # [JDict [(''pairAddress'', JStr ''0xdef''),
                 (''baseToken'', JDict [(''symbol'', JStr ''DEF''), (''name'', JStr ''Def'')])]]))])))
     {} =
     \<lparr>tracked = {KStr ''0xabc''},
      printed = [New_token \<lparr>is_trustworthy = False, base_token_name = JStr ''Token'',
        base_token_symbol = JStr ''TKN'', pair_address = JStr ''0xabc'', liquidity_usd = 0,
        buys_m5 = 0, sells_m5 = 0, ratio = 1,
        reasons = [Low_liquidity 0 5000, Low_transaction_volume 0 10]\<rparr>]
        @ [Unexpected_error KeyError],
      escaped = None\<rparr>"
proof -
  have 1: "\<not> (400 \<le> (200::nat) \<and> (200::nat) < 600)" by simp
  have 2: "map_of [(''pairs'', JList
        ([JDict [(''pairAddress'', JStr ''0xabc''),
                 (''baseToken'', JDict [(''symbol'', JStr ''TKN''), (''name'', JStr ''Token'')])]]
         @ JDict [(''baseToken'', JDict [(''symbol'', JStr ''BAD''), (''name'', JStr ''Bad'')])]
         # [JDict [(''pairAddress'', JStr ''0xdef''),
                 (''baseToken'', JDict [(''symbol'', JStr ''DEF''), (''name'', JStr ''Def'')])]]))]
       ''pairs'' = Some (JList
        ([JDict [(''pairAddress'', JStr ''0xabc''),
                 (''baseToken'', JDict [(''symbol'', JStr ''TKN''), (''name'', JStr ''Token'')])]]
         @ JDict [(''baseToken'', JDict [(''symbol'', JStr ''BAD''), (''name'', JStr ''Bad'')])]
         # [JDict [(''pairAddress'', JStr ''0xdef''),
                 (''baseToken'', JDict [(''symbol'', JStr ''DEF''), (''name'', JStr ''Def'')])]]))"
    by simp
  have 3: "process_pairs default_config
        [JDict [(''pairAddress'', JStr ''0xabc''),
                 (''baseToken'', JDict [(''symbol'', JStr ''TKN''), (''name'', JStr ''Token'')])]] {}
      = (None, {KStr ''0xabc''},
         [New_token \<lparr>is_trustworthy = False, base_token_name = JStr ''Token'',
        base_token_symbol = JStr ''TKN'', pair_address = JStr ''0xabc'', liquidity_usd = 0,
        buys_m5 = 0, sells_m5 = 0, ratio = 1,
        reasons = [Low_liquidity 0 5000, Low_transaction_volume 0 10]\<rparr>])"
    by (simp add: eval_defs)
  have 4: "subscript (JDict [(''baseToken'', JDict [(''symbol'', JStr ''BAD''), (''name'', JStr ''Bad'')])])
      ''pairAddress'' = Inl KeyError" by simp
  show ?thesis by (rule missing_identifier_ends_cycle [OF 1 2 3 4])
qed

text \<open>
  Claim C5 as stated fails: a first pair without \<open>pairAddress\<close> ends the cycle, so the
  well-formed pair \<open>0xabc\<close> after it gets no report and is not recorded, although the
  same pair alone in a response is reported.
\<close>

theorem missing_identifier_ends_cycle_counterexample:
  "check_new_tokens default_config
     (Response 200 (Some (JDict [(''pairs'', JList
        [JDict [(''baseToken'', JDict [(''symbol'', JStr ''BAD''), (''name'', JStr ''Bad'')])],
         JDict [(''pairAddress'', JStr ''0xabc''),
                (''baseToken'', JDict [(''symbol'', JStr ''TKN''), (''name'', JStr ''Token'')])]
        ])]))) {} =
     \<lparr>tracked = {}, printed = [Unexpected_error KeyError], escaped = None\<rparr>
   \<and> check_new_tokens default_config
     (Response 200 (Some (JDict [(''pairs'', JList
        [JDict [(''pairAddress'', JStr ''0xabc''),
                (''baseToken'', JDict [(''symbol'', JStr ''TKN''), (''name'', JStr ''Token'')])]
        ])]))) {} =
     \<lparr>tracked = {KStr ''0xabc''},
      printed = [New_token \<lparr>is_trustworthy = False, base_token_name = JStr ''Token'',
        base_token_symbol = JStr ''TKN'', pair_address = JStr ''0xabc'', liquidity_usd = 0,
        buys_m5 = 0, sells_m5 = 0, ratio = 1,
        reasons = [Low_liquidity 0 5000, Low_transaction_volume 0 10]\<rparr>],
      escaped = None\<rparr>"
  by (simp add: eval_defs)

text \<open>
  Claim C7, as amended. For a pair object whose base-token object holds a symbol and a
  name, and whose \<open>liquidity\<close>, \<open>txns\<close> and \<open>m5\<close> are objects when present, the
  extraction succeeds and yields, for liquidity, buys and sells, the value found at
  \<open>liquidity.usd\<close>, \<open>txns.m5.buys\<close> and \<open>txns.m5.sells\<close>, and 0 for each that is
  absent. The base-token object, its symbol and its name have no default: when one of
  them is absent the extraction raises \<open>KeyError\<close>.
\<close>

theorem absent_numbers_default_to_zero:
  "(map_of kvs ''baseToken'' = Some (JDict bt)
      \<and> map_of bt ''symbol'' = Some symbol \<and> map_of bt ''name'' = Some name
      \<and> absent_or_object (map_of kvs ''liquidity'')
      \<and> absent_or_object (map_of kvs ''txns'')
      \<and> absent_or_object (lookup_path (JDict kvs) [''txns'', ''m5'']) \<longrightarrow>
    extract_fields (JDict kvs) =
      Inr (symbol, name,
           or_zero (lookup_path (JDict kvs) [''liquidity'', ''usd'']),
           or_zero (lookup_path (JDict kvs) [''txns'', ''m5'', ''buys'']),
           or_zero (lookup_path (JDict kvs) [''txns'', ''m5'', ''sells''])))
   \<and> (lookup_path (JDict kvs') [''baseToken''] = None
        \<or> (\<exists>bt'. map_of kvs' ''baseToken'' = Some (JDict bt')
              \<and> (map_of bt' ''symbol'' = None \<or> map_of bt' ''name'' = None)) \<longrightarrow>
       extract_fields (JDict kvs') = Inl KeyError)"
  using extract_fields_defaults [of kvs bt symbol name]
  by (auto simp: extract_fields_def split: option.splits)

theorem absent_numbers_default_to_zero_witness:
  "extract_fields (JDict [(''pairAddress'', JStr ''0xabc''),
      (''baseToken'', JDict [(''symbol'', JStr ''TKN''), (''name'', JStr ''Token'')]),
      (''txns'', JDict [(''m5'', JDict [(''buys'', JNum 4)])])]) =
     Inr (JStr ''TKN'', JStr ''Token'', JNum 0, JNum 4, JNum 0)
   \<and> extract_fields (JDict [(''pairAddress'', JStr ''0xabc'')]) = Inl KeyError"
  using absent_numbers_default_to_zero [of "[(''pairAddress'', JStr ''0xabc''),
      (''baseToken'', JDict [(''symbol'', JStr ''TKN''), (''name'', JStr ''Token'')]),
      (''txns'', JDict [(''m5'', JDict [(''buys'', JNum 4)])])]"
      "[(''symbol'', JStr ''TKN''), (''name'', JStr ''Token'')]" "JStr ''TKN''" "JStr ''Token''"
      "[(''pairAddress'', JStr ''0xabc'')]"]
  by simp

text \<open>
  Claim C7 as stated fails for the base-token name: a pair object without it yields no
  snapshot but a \<open>KeyError\<close>, which ends the cycle without a report.
\<close>

theorem absent_numbers_default_to_zero_counterexample:
  "extract_fields (JDict [(''pairAddress'', JStr ''0xabc''),
      (''baseToken'', JDict [(''symbol'', JStr ''TKN'')]),
      (''liquidity'', JDict [(''usd'', JNum 10000)]),
      (''txns'', JDict [(''m5'', JDict [(''buys'', JNum 20), (''sells'', JNum 15)])])])
     = Inl KeyError
   \<and> check_new_tokens default_config
       (Response 200 (Some (JDict [(''pairs'', JList [JDict [(''pairAddress'', JStr ''0xabc''),
          (''baseToken'', JDict [(''symbol'', JStr ''TKN'')]),
          (''liquidity'', JDict [(''usd'', JNum 10000)]),
          (''txns'', JDict [(''m5'', JDict [(''buys'', JNum 20), (''sells'', JNum 15)])])]])])))
       {} =
     \<lparr>tracked = {KStr ''0xabc''}, printed = [Unexpected_error KeyError], escaped = None\<rparr>"
  by (simp add: eval_defs)

text \<open>
  Claim C9. When the pairs before a pair were processed without an exception, the pair's
  identifier is new, and the analysis of the pair raises (line 69 has already added the
  identifier), then the cycle ends with that exception and the identifier recorded; the
  identifier stays in \<open>tracked_pairs\<close> after this and every later cycle, and no cycle
  of the run, this one or a later one, reports it.
\<close>

theorem tracked_before_failure_never_reported:
  assumes "\<not> (400 \<le> st \<and> st < 600)"
    and "map_of kvs ''pairs'' = Some (JList (pre @ p # post))"
    and "process_pairs cfg pre T = (None, T1, o1)"
    and "subscript p ''pairAddress'' = Inr a" and "hash_key a = Inr k" and "k \<notin> T1"
    and "analyse cfg p a = Inl e"
  shows "try_body cfg (Response st (Some (JDict kvs))) T = (Some e, insert k T1, o1)
     \<and> (\<forall>out \<in> set (main_cycles cfg (Response st (Some (JDict kvs)) # fs) T).
           k \<in> tracked out)
     \<and> Inr k \<notin> set (concat (map cycle_keys
           (main_cycles cfg (Response st (Some (JDict kvs)) # fs) T)))"
proof -
  let ?f = "Response st (Some (JDict kvs))"
  have "pre @ p # post = hd (pre @ p # post) # tl (pre @ p # post)" by simp
  then have "try_body cfg ?f T = process_pairs cfg (pre @ p # post) T"
    using try_body_listing [OF assms(1), of kvs "hd (pre @ p # post)" "tl (pre @ p # post)"]
      assms(2) by simp
  moreover have "process_pair cfg p T1 = (Some e, insert k T1, [])"
    using assms by (simp add: process_pair_def)
  ultimately have tb: "try_body cfg ?f T = (Some e, insert k T1, o1)"
    using assms(3) by (simp add: process_pairs_append)
  then have tr: "tracked (check_new_tokens cfg ?f T) = insert k T1"
    by (simp add: check_new_tokens_def)
  have "T \<subseteq> T1" using assms(3) process_pairs_tracked by blast
  then have "k \<notin> T" using assms(6) by blast
  have "Inr k \<notin> set (reported_keys o1)"
    using process_pairs_reported [OF assms(3)] assms(6) by blast
  then have a: "Inr k \<notin> set (cycle_keys (check_new_tokens cfg ?f T))"
    using tb by (simp add: check_new_tokens_def cycle_keys_def reported_keys_append)
  have b: "Inr k \<notin> set (concat (map cycle_keys
      (main_cycles cfg fs (tracked (check_new_tokens cfg ?f T)))))"
    using main_cycles_reported [of "Inr k" cfg fs "tracked (check_new_tokens cfg ?f T)"] tr
    by auto
  have c: "Inr k \<notin> set (concat (map cycle_keys (main_cycles cfg (?f # fs) T)))"
    using a b by (auto simp: Let_def split: option.splits)
  have "k \<in> tracked out" if "out \<in> set (main_cycles cfg (?f # fs) T)" for out
  proof -
    from that have "out = check_new_tokens cfg ?f T
        \<or> out \<in> set (main_cycles cfg fs (tracked (check_new_tokens cfg ?f T)))"
      by (auto simp: Let_def split: option.splits)
    then show ?thesis using tr main_cycles_tracked by fastforce
  qed
  then show ?thesis using tb c by blast
qed

theorem tracked_before_failure_never_reported_witness:
  "list_all (\<lambda>out. KStr ''0xdef'' \<in> tracked out) (main_cycles default_config
        [Response 200 (Some (JDict [(''pairs'', JList ([] @ JDict [(''pairAddress'', JStr ''0xdef'')] # []))])),
         Response 200 (Some (JDict [(''pairs'', JList [JDict [(''pairAddress'', JStr ''0xdef''),
           (''baseToken'', JDict [(''symbol'', JStr ''DEF''), (''name'', JStr ''Def'')])]])]))] {})
   \<and> Inr (KStr ''0xdef'') \<notin> set (concat (map cycle_keys (main_cycles default_config
        [Response 200 (Some (JDict [(''pairs'', JList ([] @ JDict [(''pairAddress'', JStr ''0xdef'')] # []))])),
         Response 200 (Some (JDict [(''pairs'', JList [JDict [(''pairAddress'', JStr ''0xdef''),
           (''baseToken'', JDict [(''symbol'', JStr ''DEF''), (''name'', JStr ''Def'')])]])]))] {})))"
proof -
  have 1: "\<not> (400 \<le> (200::nat) \<and> (200::nat) < 600)" by simp
  have 2: "map_of [(''pairs'', JList ([] @ JDict [(''pairAddress'', JStr ''0xdef'')] # []))] ''pairs''
      = Some (JList ([] @ JDict [(''pairAddress'', JStr ''0xdef'')] # []))" by simp
  have 3: "process_pairs default_config [] {} = (None, {}, [])" by simp
  have 4: "subscript (JDict [(''pairAddress'', JStr ''0xdef'')]) ''pairAddress'' = Inr (JStr ''0xdef'')"
    by simp
  have 5: "hash_key (JStr ''0xdef'') = Inr (KStr ''0xdef'')" by simp
  have 6: "KStr ''0xdef'' \<notin> {}" by simp
  have 7: "analyse default_config (JDict [(''pairAddress'', JStr ''0xdef'')]) (JStr ''0xdef'')
      = Inl KeyError" by (simp add: analyse_def extract_fields_def)
  show ?thesis
    unfolding list_all_iff
    using tracked_before_failure_never_reported [OF 1 2 3 4 5 6 7] by blast
qed

section \<open>The analysis and the state\<close>

text \<open>
  Claim C8. Processing a pair whose identifier is new prints the same and raises the same
  in any two states of \<open>tracked_pairs\<close>; the only change to \<open>tracked_pairs\<close> is the
  identifier added by line 69; and the ratio, flag and reasons of the report are those
  the analysis gives for the liquidity, buys and sells of the report under the
  thresholds, so they depend on nothing else.
\<close>

theorem verdict_independent_of_tracked_pairs:
  assumes "subscript p ''pairAddress'' = Inr a" and "hash_key a = Inr k"
    and "k \<notin> T1" and "k \<notin> T2"
  shows "fst (process_pair cfg p T1) = fst (process_pair cfg p T2)
     \<and> snd (snd (process_pair cfg p T1)) = snd (snd (process_pair cfg p T2))
     \<and> fst (snd (process_pair cfg p T1)) = insert k T1
     \<and> fst (snd (process_pair cfg p T2)) = insert k T2
     \<and> (\<forall>r. analyse cfg p a = Inr r \<longrightarrow>
          judge cfg (JNum (liquidity_usd r)) (JNum (buys_m5 r)) (JNum (sells_m5 r)) =
            Inr (ratio r, is_trustworthy r, reasons r))"
proof -
  have "judge cfg (JNum (liquidity_usd r)) (JNum (buys_m5 r)) (JNum (sells_m5 r)) =
            Inr (ratio r, is_trustworthy r, reasons r)" if "analyse cfg p a = Inr r" for r
    using that
    by (auto simp: analyse_def judge_def buy_sell_ratio_def make_report_def and_then_def
        split: sum.splits prod.splits if_splits)
  then show ?thesis using assms
    by (auto simp: process_pair_def split: sum.splits)
qed

theorem verdict_independent_of_tracked_pairs_witness:
  "snd (snd (process_pair default_config
      (JDict [(''pairAddress'', JStr ''0xabc''),
         (''baseToken'', JDict [(''symbol'', JStr ''TKN''), (''name'', JStr ''Token'')]),
         (''liquidity'', JDict [(''usd'', JNum 10000)]),
         (''txns'', JDict [(''m5'', JDict [(''buys'', JNum 20), (''sells'', JNum 15)])])]) {}))
   = snd (snd (process_pair default_config
      (JDict [(''pairAddress'', JStr ''0xabc''),
         (''baseToken'', JDict [(''symbol'', JStr ''TKN''), (''name'', JStr ''Token'')]),
         (''liquidity'', JDict [(''usd'', JNum 10000)]),
         (''txns'', JDict [(''m5'', JDict [(''buys'', JNum 20), (''sells'', JNum 15)])])])
      {KStr ''0xdef''}))
   \<and> fst (snd (process_pair default_config
      (JDict [(''pairAddress'', JStr ''0xabc''),
         (''baseToken'', JDict [(''symbol'', JStr ''TKN''), (''name'', JStr ''Token'')]),
         (''liquidity'', JDict [(''usd'', JNum 10000)]),
         (''txns'', JDict [(''m5'', JDict [(''buys'', JNum 20), (''sells'', JNum 15)])])])
      {KStr ''0xdef''})) = {KStr ''0xabc'', KStr ''0xdef''}
   \<and> judge default_config (JNum 10000) (JNum 20) (JNum 15) = Inr (4 / 3, True, [])"
proof -
  have 1: "subscript (JDict [(''pairAddress'', JStr ''0xabc''),
         (''baseToken'', JDict [(''symbol'', JStr ''TKN''), (''name'', JStr ''Token'')]),
         (''liquidity'', JDict [(''usd'', JNum 10000)]),
         (''txns'', JDict [(''m5'', JDict [(''buys'', JNum 20), (''sells'', JNum 15)])])])
       ''pairAddress'' = Inr (JStr ''0xabc'')" by simp
  have 2: "hash_key (JStr ''0xabc'') = Inr (KStr ''0xabc'')" by simp
  have 3: "KStr ''0xabc'' \<notin> {}" by simp
  have 4: "KStr ''0xabc'' \<notin> {KStr ''0xdef''}" by simp
  have 5: "analyse default_config (JDict [(''pairAddress'', JStr ''0xabc''),
         (''baseToken'', JDict [(''symbol'', JStr ''TKN''), (''name'', JStr ''Token'')]),
         (''liquidity'', JDict [(''usd'', JNum 10000)]),
         (''txns'', JDict [(''m5'', JDict [(''buys'', JNum 20), (''sells'', JNum 15)])])]) (JStr ''0xabc'') =
      Inr \<lparr>is_trustworthy = True, base_token_name = JStr ''Token'',
        base_token_symbol = JStr ''TKN'', pair_address = JStr ''0xabc'',
        liquidity_usd = 10000, buys_m5 = 20, sells_m5 = 15, ratio = 4 / 3, reasons = []\<rparr>"
    by (simp add: eval_defs)
  show ?thesis
    using verdict_independent_of_tracked_pairs [OF 1 2 3 4, of default_config] 5 by auto
qed

section \<open>Repeated identifiers in one response\<close>



end
